theory Spec2Isabelle
  imports Complex_Main "HOL-Library.AList" "HOL-Library.Multiset"
begin

section \<open>Medication Tracker: coordinator, services and calendar\<close>

text \<open>
  A shallow embedding of \<^verbatim>\<open>custom_components/medication_tracker\<close>:
  \<^verbatim>\<open>coordinator.py\<close> (the registry and its mutating operations),
  \<^verbatim>\<open>services.py\<close> (the service handlers and their schemas) and \<^verbatim>\<open>calendar.py\<close>
  (the event view). The classes \<^verbatim>\<open>MedicationData\<close>, \<^verbatim>\<open>DoseRecord\<close> and
  \<^verbatim>\<open>MedicationEntry\<close> are imported by these files from \<^verbatim>\<open>models.py\<close>; their fields
  are the ones the three files read and write, and their methods are modelled from the
  specification where marked.
\<close>

subsection \<open>Time\<close>

text \<open>
  An aware \<^verbatim>\<open>datetime\<close> holds its wall-clock fields and its time zone. \<open>wall\<close> is the
  wall-clock reading in microseconds, \<open>utcoffset\<close> the offset of its zone from UTC in
  microseconds (a zone is a fixed offset). A \<^verbatim>\<open>date\<close> is a day number.
  \<^verbatim>\<open>datetime.date()\<close> reads the wall-clock fields, so it is the date in the datetime's
  own zone; two aware datetimes are ordered by their UTC instants; adding a
  \<^verbatim>\<open>timedelta\<close> moves the wall clock and keeps the zone.
\<close>

type_synonym date = int

record datetime =
  wall :: int
  utcoffset :: int

definition DAY_US :: int where
  "DAY_US = 86400000000"

definition utc_instant :: "datetime \<Rightarrow> int" where
  "utc_instant t = wall t - utcoffset t"

definition date_of :: "datetime \<Rightarrow> date" where
  "date_of t = wall t div DAY_US"

definition timedelta_minutes :: "int \<Rightarrow> int" where
  "timedelta_minutes n = n * 60000000"

definition timedelta_hours :: "int \<Rightarrow> int" where
  "timedelta_hours n = n * 3600000000"

definition add_timedelta :: "datetime \<Rightarrow> int \<Rightarrow> datetime" where
  "add_timedelta t delta = t\<lparr>wall := wall t + delta\<rparr>"

text \<open>
  \<^verbatim>\<open>datetime.combine(d, time_of_day, tzinfo=tz)\<close>, and
  \<^verbatim>\<open>dt_util.start_of_local_day(d)\<close>, which combines the date with midnight in the
  default time zone. \<^verbatim>\<open>dt_util.now()\<close> is a datetime of the default time zone, so the
  offset of the default zone is the offset of the clock reading.
\<close>

definition combine :: "date \<Rightarrow> int \<Rightarrow> int \<Rightarrow> datetime" where
  "combine d time_of_day tz = \<lparr>wall = d * DAY_US + time_of_day, utcoffset = tz\<rparr>"

definition start_of_local_day :: "int \<Rightarrow> date \<Rightarrow> datetime" where
  "start_of_local_day default_tz d = combine d 0 default_tz"

subsection \<open>Constants of const.py\<close>

definition FREQUENCY_DAILY :: string where
  "FREQUENCY_DAILY = ''daily''"

definition FREQUENCY_WEEKLY :: string where
  "FREQUENCY_WEEKLY = ''weekly''"

definition FREQUENCY_MONTHLY :: string where
  "FREQUENCY_MONTHLY = ''monthly''"

definition FREQUENCY_AS_NEEDED :: string where
  "FREQUENCY_AS_NEEDED = ''as_needed''"

datatype state = STATE_DUE | STATE_TAKEN | STATE_OVERDUE | STATE_NOT_DUE | STATE_SKIPPED

subsection \<open>Data model\<close>

text \<open>
  The field \<^verbatim>\<open>times\<close> is named \<open>times_list\<close> and the field \<^verbatim>\<open>id\<close> is named
  \<open>entry_id\<close>, since \<open>times\<close> and \<open>id\<close> are constants of HOL.
\<close>

record MedicationData =
  name :: string
  dosage :: string
  frequency :: string
  times_list :: "string list"
  start_date :: "datetime option"
  end_date :: "datetime option"
  "notes" :: string
  supply_tracking_enabled :: bool
  current_supply :: "int option"
  pills_per_dose :: int
  refill_reminder_threshold :: int
  last_refill_date :: "datetime option"
  show_refill_on_calendar :: bool

record DoseRecord =
  timestamp :: datetime
  taken :: bool
  dose_notes :: "string option"

record MedicationEntry =
  entry_id :: string
  data :: MedicationData
  dose_history :: "DoseRecord list"
  next_due :: "datetime option"
  status :: state

text \<open>
  \<^verbatim>\<open>self._medications\<close> is a Python dict: lookup by key, insertion order kept, an
  assignment to an existing key keeps its position. An association list with
  \<open>map_of\<close>, \<open>AList.update\<close> and \<open>AList.delete\<close> has exactly this behaviour.
\<close>

type_synonym registry = "(string \<times> MedicationEntry) list"

subsection \<open>The engine of models.py\<close>

text \<open>
  The schedule calculator and the status state machine of \<^verbatim>\<open>models.py\<close> are not part of
  the three files above. They enter as a parameter: \<open>derive_schedule\<close> maps the cached
  next-due value, the prescription, the ledger and the evaluation instant to the new
  next-due value and status; \<open>historical_rate\<close> is the average number of doses per day
  that an as-needed medication derives from its ledger.
\<close>

record engine =
  derive_schedule ::
    "datetime option \<Rightarrow> MedicationData \<Rightarrow> DoseRecord list \<Rightarrow> datetime \<Rightarrow> datetime option \<times> state"
  historical_rate :: "DoseRecord list \<Rightarrow> rat option"

text \<open>
  Modelled from the spec: \<^verbatim>\<open>MedicationEntry.update_status\<close> of models.py is missing.
  It recomputes \<open>next_due\<close> and \<open>status\<close> from the schedule, the dose history and the
  instant, and touches nothing else.
\<close>

definition update_status :: "engine \<Rightarrow> datetime \<Rightarrow> MedicationEntry \<Rightarrow> MedicationEntry" where
  "update_status E now m =
     (case derive_schedule E (next_due m) (data m) (dose_history m) now of
        (nd, st) \<Rightarrow> m\<lparr>next_due := nd, status := st\<rparr>)"

text \<open>
  Modelled from the spec: \<^verbatim>\<open>MedicationEntry.reset_schedule\<close> of models.py is missing.
  It discards the cached next-due value.
\<close>

definition reset_schedule :: "MedicationEntry \<Rightarrow> MedicationEntry" where
  "reset_schedule m = m\<lparr>next_due := None\<rparr>"

text \<open>
  Modelled from the spec: \<^verbatim>\<open>MedicationEntry.record_dose_taken\<close> and
  \<^verbatim>\<open>record_dose_skipped\<close> of models.py are missing. Each appends one record to the
  ledger and triggers \<open>update_status\<close>.
\<close>

definition record_dose_taken :: "engine \<Rightarrow> datetime \<Rightarrow> MedicationEntry \<Rightarrow> MedicationEntry" where
  "record_dose_taken E when m =
     update_status E when
       (m\<lparr>dose_history := dose_history m @ [\<lparr>timestamp = when, taken = True, dose_notes = None\<rparr>]\<rparr>)"

definition record_dose_skipped :: "engine \<Rightarrow> datetime \<Rightarrow> MedicationEntry \<Rightarrow> MedicationEntry" where
  "record_dose_skipped E when m =
     update_status E when
       (m\<lparr>dose_history := dose_history m @ [\<lparr>timestamp = when, taken = False, dose_notes = None\<rparr>]\<rparr>)"

text \<open>
  Modelled from the spec: the supply tracker of models.py is missing
  (\<^verbatim>\<open>daily_consumption\<close>, \<^verbatim>\<open>days_of_supply_remaining\<close>, \<^verbatim>\<open>estimated_refill_date\<close>,
  \<^verbatim>\<open>is_low_supply\<close>, \<^verbatim>\<open>decrement_supply\<close>). The quotients are exact rationals
  where the program has floats.
\<close>

definition daily_consumption :: "engine \<Rightarrow> MedicationEntry \<Rightarrow> rat option" where
  "daily_consumption E m =
     (let d = data m;
          n = of_nat (length (times_list d));
          p = of_int (pills_per_dose d)
      in if frequency d = FREQUENCY_DAILY then Some (p * (if times_list d = [] then 1 else n))
         else if frequency d = FREQUENCY_WEEKLY then Some (p * (n / 7))
         else if frequency d = FREQUENCY_MONTHLY then Some (p * (n / 30))
         else if frequency d = FREQUENCY_AS_NEEDED then
           (case historical_rate E (dose_history m) of None \<Rightarrow> None | Some r \<Rightarrow> Some (p * r))
         else None)"

definition days_of_supply_remaining :: "engine \<Rightarrow> MedicationEntry \<Rightarrow> rat option" where
  "days_of_supply_remaining E m =
     (case current_supply (data m) of
        None \<Rightarrow> None
      | Some c \<Rightarrow>
          (case daily_consumption E m of
             None \<Rightarrow> None
           | Some r \<Rightarrow> if r = 0 then None else Some (of_int c / r)))"

definition estimated_refill_date :: "engine \<Rightarrow> date \<Rightarrow> MedicationEntry \<Rightarrow> date option" where
  "estimated_refill_date E today m =
     (case days_of_supply_remaining E m of
        None \<Rightarrow> None
      | Some r \<Rightarrow> Some (today + \<lfloor>r\<rfloor>))"

definition is_low_supply :: "engine \<Rightarrow> MedicationEntry \<Rightarrow> bool" where
  "is_low_supply E m =
     (supply_tracking_enabled (data m) \<and>
      (case current_supply (data m) of
         None \<Rightarrow> False
       | Some c \<Rightarrow>
           (case days_of_supply_remaining E m of
              None \<Rightarrow> False
            | Some r \<Rightarrow> r \<le> of_int (refill_reminder_threshold (data m)))))"

definition decrement_supply :: "MedicationEntry \<Rightarrow> MedicationEntry" where
  "decrement_supply m =
     (if supply_tracking_enabled (data m) then
        (case current_supply (data m) of
           None \<Rightarrow> m
         | Some c \<Rightarrow> m\<lparr>data := (data m)\<lparr>current_supply := Some (max 0 (c - pills_per_dose (data m)))\<rparr>\<rparr>)
      else m)"

text \<open>
  Modelled from the spec: the constructor of \<^verbatim>\<open>MedicationEntry\<close> (models.py) is missing.
  A new entry has an empty ledger and no next-due value; its status before the first
  \<open>update_status\<close> is taken to be \<open>STATE_NOT_DUE\<close>.
\<close>

definition new_MedicationEntry :: "string \<Rightarrow> MedicationData \<Rightarrow> MedicationEntry" where
  "new_MedicationEntry i d =
     \<lparr>entry_id = i, data = d, dose_history = [], next_due = None, status = STATE_NOT_DUE\<rparr>"

subsection \<open>coordinator.py\<close>

text \<open>
  The payload of the low-supply event of \<^verbatim>\<open>_fire_low_supply_event\<close>. The rounded
  floating-point \<^verbatim>\<open>days_remaining\<close> is display data and is left out.
\<close>

record LowSupplyEvent =
  ev_medication_id :: string
  ev_medication_name :: string
  ev_current_supply :: "int option"
  ev_pills_per_dose :: int
  ev_refill_threshold_days :: int
  ev_estimated_refill_date :: "date option"

definition low_supply_event :: "engine \<Rightarrow> date \<Rightarrow> MedicationEntry \<Rightarrow> LowSupplyEvent" where
  "low_supply_event E today m =
     \<lparr>ev_medication_id = entry_id m,
      ev_medication_name = name (data m),
      ev_current_supply = current_supply (data m),
      ev_pills_per_dose = pills_per_dose (data m),
      ev_refill_threshold_days = refill_reminder_threshold (data m),
      ev_estimated_refill_date = estimated_refill_date E today m\<rparr>"

text \<open>
  Every operation returns its Python result, the registry after it, and the low-supply
  events fired on the bus while it ran. The value of \<^verbatim>\<open>uuid.uuid4()\<close> and two readings
  of the clock \<^verbatim>\<open>dt_util.now()\<close> are inputs: \<open>now\<close> is what the method itself reads,
  \<open>refresh_now\<close> is what the sweep \<^verbatim>\<open>_async_update_data\<close> reads afterwards. Saving to
  the store and the device and entity registries do not change the registry.

  Every operation that gets past its early returns ends with the sweep:
  \<^verbatim>\<open>async_refresh\<close> awaits it, and \<^verbatim>\<open>async_request_refresh\<close> goes through the
  coordinator's debouncer, which calls it at once.
\<close>

record op_result =
  returned :: bool
  medications :: registry
  fired :: "LowSupplyEvent list"

text \<open>
  \<^verbatim>\<open>_async_update_data\<close>: \<open>update_status\<close> for every entry, in the order of the dict.
  It fires no low-supply event. (On an empty registry the program first loads the
  store, which holds the registry that was saved just before.)
\<close>

definition async_update_data :: "engine \<Rightarrow> datetime \<Rightarrow> registry \<Rightarrow> registry" where
  "async_update_data E refresh_now meds = map (\<lambda>(k, m). (k, update_status E refresh_now m)) meds"


definition async_remove_medication ::
  "engine \<Rightarrow> datetime \<Rightarrow> registry \<Rightarrow> string \<Rightarrow> op_result" where
  "async_remove_medication E refresh_now meds medication_id =
     (if map_of meds medication_id \<noteq> None
      then \<lparr>returned = True,
            medications = async_update_data E refresh_now (AList.delete medication_id meds),
            fired = []\<rparr>
      else \<lparr>returned = False, medications = meds, fired = []\<rparr>)"

definition async_update_medication ::
  "engine \<Rightarrow> datetime \<Rightarrow> datetime \<Rightarrow> registry \<Rightarrow> string \<Rightarrow> MedicationData \<Rightarrow> op_result" where
  "async_update_medication E now refresh_now meds medication_id medication_data =
     (case map_of meds medication_id of
        None \<Rightarrow> \<lparr>returned = False, medications = meds, fired = []\<rparr>
      | Some medication \<Rightarrow>
          let m1 = medication\<lparr>data := medication_data\<rparr>;
              m2 = reset_schedule m1;
              m3 = update_status E now m2
          in \<lparr>returned = True,
              medications = async_update_data E refresh_now (AList.update medication_id m3 meds),
              fired = []\<rparr>)"

definition async_take_medication ::
  "engine \<Rightarrow> datetime \<Rightarrow> datetime \<Rightarrow> registry \<Rightarrow> string \<Rightarrow> datetime option \<Rightarrow> op_result" where
  "async_take_medication E now refresh_now meds medication_id taken_at =
     (case map_of meds medication_id of
        None \<Rightarrow> \<lparr>returned = False, medications = meds, fired = []\<rparr>
      | Some medication \<Rightarrow>
          let when = (case taken_at of None \<Rightarrow> now | Some t \<Rightarrow> t);
              was_low_supply = is_low_supply E medication;
              m1 = record_dose_taken E when medication;
              m2 = (if supply_tracking_enabled (data m1) then decrement_supply m1 else m1);
              evs = (if supply_tracking_enabled (data m1) \<and> \<not> was_low_supply \<and> is_low_supply E m2
                     then [low_supply_event E (date_of now) m2] else [])
          in \<lparr>returned = True,
              medications = async_update_data E refresh_now (AList.update medication_id m2 meds),
              fired = evs\<rparr>)"

definition async_skip_medication ::
  "engine \<Rightarrow> datetime \<Rightarrow> datetime \<Rightarrow> registry \<Rightarrow> string \<Rightarrow> datetime option \<Rightarrow> op_result" where
  "async_skip_medication E now refresh_now meds medication_id skipped_at =
     (case map_of meds medication_id of
        None \<Rightarrow> \<lparr>returned = False, medications = meds, fired = []\<rparr>
      | Some medication \<Rightarrow>
          let when = (case skipped_at of None \<Rightarrow> now | Some t \<Rightarrow> t);
              m1 = record_dose_skipped E when medication
          in \<lparr>returned = True,
              medications = async_update_data E refresh_now (AList.update medication_id m1 meds),
              fired = []\<rparr>)"

definition async_refill_medication ::
  "engine \<Rightarrow> datetime \<Rightarrow> datetime \<Rightarrow> registry \<Rightarrow> string \<Rightarrow> int \<Rightarrow> datetime option \<Rightarrow> op_result" where
  "async_refill_medication E now refresh_now meds medication_id refill_amount refill_date =
     (case map_of meds medication_id of
        None \<Rightarrow> \<lparr>returned = False, medications = meds, fired = []\<rparr>
      | Some medication \<Rightarrow>
          if \<not> supply_tracking_enabled (data medication)
          then \<lparr>returned = False, medications = meds, fired = []\<rparr>
          else
            let current = (case current_supply (data medication) of None \<Rightarrow> 0 | Some c \<Rightarrow> c);
                d1 = (data medication)\<lparr>current_supply := Some (current + refill_amount)\<rparr>;
                d2 = d1\<lparr>last_refill_date :=
                          Some (case refill_date of None \<Rightarrow> now | Some t \<Rightarrow> t)\<rparr>
            in \<lparr>returned = True,
                medications =
                  async_update_data E refresh_now
                    (AList.update medication_id (medication\<lparr>data := d2\<rparr>) meds),
                fired = []\<rparr>)"

definition async_update_supply ::
  "engine \<Rightarrow> datetime \<Rightarrow> datetime \<Rightarrow> registry \<Rightarrow> string \<Rightarrow> int \<Rightarrow> op_result" where
  "async_update_supply E now refresh_now meds medication_id new_supply =
     (case map_of meds medication_id of
        None \<Rightarrow> \<lparr>returned = False, medications = meds, fired = []\<rparr>
      | Some medication \<Rightarrow>
          if \<not> supply_tracking_enabled (data medication)
          then \<lparr>returned = False, medications = meds, fired = []\<rparr>
          else
            let was_low_supply = is_low_supply E medication;
                m1 = medication\<lparr>data := (data medication)\<lparr>current_supply := Some new_supply\<rparr>\<rparr>;
                evs = (if \<not> was_low_supply \<and> is_low_supply E m1
                       then [low_supply_event E (date_of now) m1] else [])
            in \<lparr>returned = True,
                medications = async_update_data E refresh_now (AList.update medication_id m1 meds),
                fired = evs\<rparr>)"

definition get_medication :: "registry \<Rightarrow> string \<Rightarrow> MedicationEntry option" where
  "get_medication meds medication_id = map_of meds medication_id"

subsection \<open>services.py\<close>

text \<open>
  \<^verbatim>\<open>cv.positive_int\<close> of the service schemas: an integer in the range from 0 upwards.
\<close>

definition positive_int :: "int \<Rightarrow> bool" where
  "positive_int v \<longleftrightarrow> 0 \<le> v"

text \<open>
  A datetime of a service call after \<^verbatim>\<open>cv.datetime\<close> may be naive (no zone). The
  handlers pass an aware one on as it is and give a naive one the default time zone
  (\<^verbatim>\<open>dt_util.as_local\<close>).
\<close>

record ServiceDatetime =
  sd_wall :: int
  sd_utcoffset :: "int option"

definition as_aware :: "int \<Rightarrow> ServiceDatetime \<Rightarrow> datetime" where
  "as_aware default_tz x =
     \<lparr>wall = sd_wall x,
      utcoffset = (case sd_utcoffset x of None \<Rightarrow> default_tz | Some z \<Rightarrow> z)\<rparr>"

text \<open>
  The \<^verbatim>\<open>refill_medication\<close> service. A service is registered with its schema: the
  host validates the call data first and runs the handler only when the schema accepts
  them; otherwise the call is refused and the registry stays as it is. The handler,
  with one coordinator: when the id is not found it logs and returns, otherwise it
  calls \<open>async_refill_medication\<close>. The result is the registry after the call.
\<close>

record RefillCall =
  rc_medication_id :: string
  rc_refill_amount :: int
  rc_datetime :: "ServiceDatetime option"

definition REFILL_MEDICATION_SCHEMA :: "RefillCall \<Rightarrow> bool" where
  "REFILL_MEDICATION_SCHEMA c \<longleftrightarrow> positive_int (rc_refill_amount c)"

definition handle_refill_medication ::
  "engine \<Rightarrow> datetime \<Rightarrow> datetime \<Rightarrow> registry \<Rightarrow> RefillCall \<Rightarrow> registry" where
  "handle_refill_medication E now refresh_now meds c =
     (let refill_date = map_option (as_aware (utcoffset now)) (rc_datetime c)
      in case get_medication meds (rc_medication_id c) of
           None \<Rightarrow> meds
         | Some found \<Rightarrow>
             medications
               (async_refill_medication E now refresh_now meds (rc_medication_id c)
                  (rc_refill_amount c) refill_date))"

definition refill_medication_service ::
  "engine \<Rightarrow> datetime \<Rightarrow> datetime \<Rightarrow> registry \<Rightarrow> RefillCall \<Rightarrow> registry" where
  "refill_medication_service E now refresh_now meds c =
     (if REFILL_MEDICATION_SCHEMA c then handle_refill_medication E now refresh_now meds c
      else meds)"

text \<open>The \<^verbatim>\<open>update_supply\<close> service, in the same way.\<close>

record UpdateSupplyCall =
  us_medication_id :: string
  us_current_supply :: int

definition UPDATE_SUPPLY_SCHEMA :: "UpdateSupplyCall \<Rightarrow> bool" where
  "UPDATE_SUPPLY_SCHEMA c \<longleftrightarrow> positive_int (us_current_supply c)"

definition handle_update_supply ::
  "engine \<Rightarrow> datetime \<Rightarrow> datetime \<Rightarrow> registry \<Rightarrow> UpdateSupplyCall \<Rightarrow> registry" where
  "handle_update_supply E now refresh_now meds c =
     (case get_medication meds (us_medication_id c) of
        None \<Rightarrow> meds
      | Some found \<Rightarrow>
          medications
            (async_update_supply E now refresh_now meds (us_medication_id c)
               (us_current_supply c)))"

definition update_supply_service ::
  "engine \<Rightarrow> datetime \<Rightarrow> datetime \<Rightarrow> registry \<Rightarrow> UpdateSupplyCall \<Rightarrow> registry" where
  "update_supply_service E now refresh_now meds c =
     (if UPDATE_SUPPLY_SCHEMA c then handle_update_supply E now refresh_now meds c else meds)"

text \<open>
  The data of an \<^verbatim>\<open>update_medication\<close> call after \<^verbatim>\<open>UPDATE_MEDICATION_SCHEMA\<close>: the
  medication id is required, every other key is optional, and the two dates arrive as
  \<^verbatim>\<open>date\<close> objects. \<^verbatim>\<open>call.data.get(key, default)\<close> is \<open>dict_get\<close>.
\<close>

record UpdateCall =
  call_medication_id :: string
  call_name :: "string option"
  call_dosage :: "string option"
  call_frequency :: "string option"
  call_times :: "string list option"
  call_start_date :: "date option"
  call_end_date :: "date option"
  call_notes :: "string option"
  call_supply_tracking_enabled :: "bool option"
  call_current_supply :: "int option"
  call_pills_per_dose :: "int option"
  call_refill_reminder_threshold :: "int option"
  call_show_refill_on_calendar :: "bool option"

definition dict_get :: "'a option \<Rightarrow> 'a \<Rightarrow> 'a" where
  "dict_get v dflt = (case v of None \<Rightarrow> dflt | Some x \<Rightarrow> x)"

text \<open>
  The \<^verbatim>\<open>MedicationData\<close> that \<^verbatim>\<open>handle_update_medication\<close> builds from the call and
  the current data. A date from the call, and also a datetime kept from the current
  data, goes through \<^verbatim>\<open>start_of_local_day\<close>, which takes the date of a datetime; the
  end date is the last microsecond of its day.
\<close>

definition updated_data :: "int \<Rightarrow> MedicationData \<Rightarrow> UpdateCall \<Rightarrow> MedicationData" where
  "updated_data default_tz cur c =
     (let start_d =
            (case call_start_date c of
               Some d \<Rightarrow> Some (start_of_local_day default_tz d)
             | None \<Rightarrow>
                 (case start_date cur of
                    None \<Rightarrow> None
                  | Some t \<Rightarrow> Some (start_of_local_day default_tz (date_of t))));
          end_d =
            (case call_end_date c of
               Some d \<Rightarrow> Some (add_timedelta (start_of_local_day default_tz d) (DAY_US - 1))
             | None \<Rightarrow>
                 (case end_date cur of
                    None \<Rightarrow> None
                  | Some t \<Rightarrow>
                      Some (add_timedelta (start_of_local_day default_tz (date_of t))
                              (DAY_US - 1))))
      in \<lparr>name = dict_get (call_name c) (name cur),
          dosage = dict_get (call_dosage c) (dosage cur),
          frequency = dict_get (call_frequency c) (frequency cur),
          times_list = dict_get (call_times c) (times_list cur),
          start_date = start_d,
          end_date = end_d,
          notes = dict_get (call_notes c) (notes cur),
          supply_tracking_enabled =
            dict_get (call_supply_tracking_enabled c) (supply_tracking_enabled cur),
          current_supply =
            (case call_current_supply c of None \<Rightarrow> current_supply cur | Some v \<Rightarrow> Some v),
          pills_per_dose = dict_get (call_pills_per_dose c) (pills_per_dose cur),
          refill_reminder_threshold =
            dict_get (call_refill_reminder_threshold c) (refill_reminder_threshold cur),
          last_refill_date = last_refill_date cur,
          show_refill_on_calendar =
            dict_get (call_show_refill_on_calendar c) (show_refill_on_calendar cur)\<rparr>)"

text \<open>
  \<^verbatim>\<open>handle_update_medication\<close> with one coordinator: when the id is not found the
  handler logs and returns, otherwise it calls \<open>async_update_medication\<close>. The result is
  the registry after the call.
\<close>

definition handle_update_medication ::
  "engine \<Rightarrow> datetime \<Rightarrow> datetime \<Rightarrow> registry \<Rightarrow> UpdateCall \<Rightarrow> registry" where
  "handle_update_medication E now refresh_now meds c =
     (case get_medication meds (call_medication_id c) of
        None \<Rightarrow> meds
      | Some current_medication \<Rightarrow>
          medications
            (async_update_medication E now refresh_now meds (call_medication_id c)
               (updated_data (utcoffset now) (data current_medication) c)))"

subsection \<open>calendar.py\<close>

text \<open>
  A calendar event with its start, its end and its uid. The uid of the program is a
  string built from the medication id and the ISO form of the instant or date; here
  it keeps the two parts. Summary and description are display text and are left out.
\<close>

datatype event_uid = DoseUid string datetime | RefillUid string date

record CalendarEvent =
  ev_start :: datetime
  ev_end :: datetime
  ev_uid :: event_uid

definition dose_event :: "string \<Rightarrow> DoseRecord \<Rightarrow> CalendarEvent" where
  "dose_event medication_id dose_record =
     \<lparr>ev_start = timestamp dose_record,
      ev_end = add_timedelta (timestamp dose_record) (timedelta_minutes 5),
      ev_uid = DoseUid medication_id (timestamp dose_record)\<rparr>"

text \<open>The refill event: 09:00 on the refill date, in the zone of the range start.\<close>

definition refill_event :: "int \<Rightarrow> string \<Rightarrow> date \<Rightarrow> CalendarEvent" where
  "refill_event tz medication_id refill_date =
     \<lparr>ev_start = combine refill_date (timedelta_hours 9) tz,
      ev_end = add_timedelta (combine refill_date (timedelta_hours 9) tz) (timedelta_hours 1),
      ev_uid = RefillUid medication_id refill_date\<rparr>"

text \<open>The body of the loop over \<^verbatim>\<open>medications.items()\<close> in \<^verbatim>\<open>async_get_events\<close>.\<close>

definition medication_events ::
  "engine \<Rightarrow> date \<Rightarrow> datetime \<Rightarrow> datetime \<Rightarrow> string \<times> MedicationEntry \<Rightarrow> CalendarEvent list" where
  "medication_events E today range_start range_end item =
     (case item of (medication_id, medication) \<Rightarrow>
        map (dose_event medication_id)
          (filter (\<lambda>r. date_of range_start \<le> date_of (timestamp r)
                     \<and> date_of (timestamp r) \<le> date_of range_end)
             (dose_history medication))
        @ (if supply_tracking_enabled (data medication) \<and> show_refill_on_calendar (data medication)
           then (case estimated_refill_date E today medication of
                   None \<Rightarrow> []
                 | Some refill_date \<Rightarrow>
                     if date_of range_start \<le> refill_date \<and> refill_date \<le> date_of range_end
                     then [refill_event (utcoffset range_start) medication_id refill_date]
                     else [])
           else []))"

text \<open>
  \<^verbatim>\<open>events.sort(key=lambda x: x.start)\<close>: aware datetimes are compared by their UTC
  instants, and \<^verbatim>\<open>list.sort\<close> is stable, as \<open>sort_key\<close> is.
\<close>

definition async_get_events ::
  "engine \<Rightarrow> date \<Rightarrow> datetime \<Rightarrow> datetime \<Rightarrow> registry \<Rightarrow> CalendarEvent list" where
  "async_get_events E today range_start range_end meds =
     sort_key (\<lambda>x. utc_instant (ev_start x))
       (concat (map (medication_events E today range_start range_end) meds))"

text \<open>
  The calendar view in the words of the specification, with the range read on calendar
  dates: the events of the dose records whose date lies between the date of the start
  and the date of the end of the range, and one refill event for a medication with both
  switches on whose estimated refill date lies between these dates.
\<close>

definition expected_dose_events ::
  "datetime \<Rightarrow> datetime \<Rightarrow> string \<Rightarrow> MedicationEntry \<Rightarrow> CalendarEvent multiset" where
  "expected_dose_events range_start range_end medication_id medication =
     image_mset (dose_event medication_id)
       (filter_mset (\<lambda>r. date_of (timestamp r) \<in> {date_of range_start .. date_of range_end})
          (mset (dose_history medication)))"

definition expected_refill_events ::
  "engine \<Rightarrow> date \<Rightarrow> datetime \<Rightarrow> datetime \<Rightarrow> string \<Rightarrow> MedicationEntry \<Rightarrow> CalendarEvent multiset" where
  "expected_refill_events E today range_start range_end medication_id medication =
     (case estimated_refill_date E today medication of
        None \<Rightarrow> {#}
      | Some d \<Rightarrow>
          if supply_tracking_enabled (data medication) \<and> show_refill_on_calendar (data medication)
             \<and> d \<in> {date_of range_start .. date_of range_end}
          then {#refill_event (utcoffset range_start) medication_id d#} else {#})"

definition supply_of :: "registry \<Rightarrow> string \<Rightarrow> int option" where
  "supply_of meds medication_id =
     (case map_of meds medication_id of None \<Rightarrow> None | Some m \<Rightarrow> current_supply (data m))"

subsection \<open>Example inputs\<close>

text \<open>
  Wall-clock times in a zone one hour ahead of UTC, and a small engine: next due at the
  start of the next day unless a value is cached, status from the last ledger entry.
\<close>

definition local_time :: "date \<Rightarrow> int \<Rightarrow> datetime" where
  "local_time d h = combine d (timedelta_hours h) (timedelta_hours 1)"

definition example_engine :: engine where
  "example_engine =
     \<lparr>derive_schedule = (\<lambda>cached d h now.
         (case cached of
            None \<Rightarrow> Some (start_of_local_day (utcoffset now) (date_of now + 1))
          | Some t \<Rightarrow> Some t,
          if h = [] then STATE_DUE else if taken (last h) then STATE_TAKEN else STATE_SKIPPED)),
      historical_rate = (\<lambda>h. None)\<rparr>"

text \<open>A tracked and an untracked medication, and a registry holding both.\<close>

definition example_data :: MedicationData where
  "example_data =
     \<lparr>name = ''Aspirin'', dosage = ''100mg'', frequency = FREQUENCY_DAILY,
      times_list = [''08:00'', ''20:00''], start_date = None, end_date = None, notes = [],
      supply_tracking_enabled = True, current_supply = Some 5, pills_per_dose = 2,
      refill_reminder_threshold = 7, last_refill_date = None, show_refill_on_calendar = True\<rparr>"

definition example_entry :: MedicationEntry where
  "example_entry = new_MedicationEntry ''med-a'' example_data"

definition untracked_entry :: MedicationEntry where
  "untracked_entry =
     new_MedicationEntry ''med-b'' (example_data\<lparr>supply_tracking_enabled := False\<rparr>)"

definition example_registry :: registry where
  "example_registry = [(''med-a'', example_entry), (''med-b'', untracked_entry)]"

text \<open>A registry whose medications have no supply value, or the value 0.\<close>

definition empty_supply_registry :: registry where
  "empty_supply_registry =
     [(''med-c'', new_MedicationEntry ''med-c'' (example_data\<lparr>current_supply := None\<rparr>)),
      (''med-d'', new_MedicationEntry ''med-d'' (example_data\<lparr>current_supply := Some 0\<rparr>))]"

text \<open>An entry with a cached next-due value, and replacement data for it.\<close>

definition cached_entry :: MedicationEntry where
  "cached_entry = example_entry\<lparr>next_due := Some (local_time 2 8)\<rparr>"

definition renamed_data :: MedicationData where
  "renamed_data = example_data\<lparr>name := ''Ibuprofen'', times_list := [''09:00'']\<rparr>"

text \<open>A medication that was refilled on day 5 at noon, and an update call for it.\<close>

definition refilled_registry :: registry where
  "refilled_registry =
     [(''med-a'',
       new_MedicationEntry ''med-a'' (example_data\<lparr>last_refill_date := Some (local_time 5 12)\<rparr>))]"

definition example_call :: UpdateCall where
  "example_call =
     \<lparr>call_medication_id = ''med-a'', call_name = Some ''Ibuprofen'', call_dosage = None,
      call_frequency = Some FREQUENCY_WEEKLY, call_times = None, call_start_date = Some 3,
      call_end_date = None, call_notes = None, call_supply_tracking_enabled = None,
      call_current_supply = Some 40, call_pills_per_dose = None,
      call_refill_reminder_threshold = None, call_show_refill_on_calendar = None\<rparr>"

text \<open>
  A tracked medication with 30 units left: at 2 units per dose and two doses a day this
  is 7.5 days of supply, just above the threshold of 7 days.
\<close>

definition full_entry :: MedicationEntry where
  "full_entry = new_MedicationEntry ''med-a'' (example_data\<lparr>current_supply := Some 30\<rparr>)"

definition full_registry :: registry where
  "full_registry = [(''med-a'', full_entry), (''med-b'', untracked_entry)]"

text \<open>
  Service calls that the schemas refuse (a negative amount, a negative supply) and
  calls that they accept.
\<close>

definition negative_refill_call :: RefillCall where
  "negative_refill_call =
     \<lparr>rc_medication_id = ''med-a'', rc_refill_amount = - 10, rc_datetime = None\<rparr>"

definition good_refill_call :: RefillCall where
  "good_refill_call =
     \<lparr>rc_medication_id = ''med-a'', rc_refill_amount = 30,
      rc_datetime = Some \<lparr>sd_wall = 5 * DAY_US, sd_utcoffset = None\<rparr>\<rparr>"

definition negative_supply_call :: UpdateSupplyCall where
  "negative_supply_call = \<lparr>us_medication_id = ''med-a'', us_current_supply = - 3\<rparr>"

definition zero_supply_call :: UpdateSupplyCall where
  "zero_supply_call = \<lparr>us_medication_id = ''med-a'', us_current_supply = 0\<rparr>"



text \<open>
  Ledgers for the calendar: a dose on day 10 at 08:00; a tracked medication with 10
  units left (2.5 days of supply) and doses on day 9 at 20:00 and on day 12 at 23:00;
  and a dose logged in a zone eight hours behind UTC, on day 11 at 22:00 of that zone.
\<close>

definition morning_dose :: DoseRecord where
  "morning_dose = \<lparr>timestamp = local_time 10 8, taken = True, dose_notes = None\<rparr>"

definition far_west_dose :: DoseRecord where
  "far_west_dose =
     \<lparr>timestamp = combine 11 (timedelta_hours 22) (timedelta_hours (- 8)),
      taken = True, dose_notes = None\<rparr>"

definition dosed_registry :: registry where
  "dosed_registry = [(''med-b'', untracked_entry\<lparr>dose_history := [morning_dose]\<rparr>)]"

definition calendar_registry :: registry where
  "calendar_registry =
     [(''med-a'', (new_MedicationEntry ''med-a'' (example_data\<lparr>current_supply := Some 10\<rparr>))
         \<lparr>dose_history :=
            [\<lparr>timestamp = local_time 9 20, taken = True, dose_notes = None\<rparr>,
             \<lparr>timestamp = local_time 12 23, taken = False, dose_notes = None\<rparr>]\<rparr>),
      (''med-b'', untracked_entry\<lparr>dose_history := [far_west_dose, morning_dose]\<rparr>)]"

section \<open>Properties\<close>

subsection \<open>Registry lookups\<close>

lemma keys_update_present:
  "map_of al k = Some v \<Longrightarrow> map fst (AList.update k v' al) = map fst al"
  by (induction al) (auto split: if_splits)



subsection \<open>What update_status and the sweep leave alone\<close>

lemma update_status_data [simp]: "data (update_status E now m) = data m"
  by (simp add: update_status_def split: prod.splits)

lemma update_status_dose_history [simp]: "dose_history (update_status E now m) = dose_history m"
  by (simp add: update_status_def split: prod.splits)

lemma update_status_entry_id [simp]: "entry_id (update_status E now m) = entry_id m"
  by (simp add: update_status_def split: prod.splits)

lemma update_status_derived:
  "(next_due (update_status E now m), status (update_status E now m))
     = derive_schedule E (next_due m) (data m) (dose_history m) now"
  by (simp add: update_status_def split: prod.splits)

lemma map_of_async_update_data:
  "map_of (async_update_data E now meds) k = map_option (update_status E now) (map_of meds k)"
  by (induction meds) (auto simp add: async_update_data_def)

lemma keys_async_update_data: "map fst (async_update_data E now meds) = map fst meds"
  by (induction meds) (auto simp add: async_update_data_def)

lemma record_dose_taken_data [simp]: "data (record_dose_taken E t m) = data m"
  by (simp add: record_dose_taken_def)

subsection \<open>Unknown ids\<close>

text \<open>
  Claim C5. When the id is not a key of the registry, each of remove, update, take,
  skip, refill and update_supply returns false, hands back the registry exactly as it
  was (no entry added, removed or changed) and fires nothing.
\<close>

theorem unknown_id_is_rejected:
  assumes "map_of meds mid = None"
  shows "async_remove_medication E refresh_now meds mid
           = \<lparr>returned = False, medications = meds, fired = []\<rparr>
       \<and> async_update_medication E now refresh_now meds mid d
           = \<lparr>returned = False, medications = meds, fired = []\<rparr>
       \<and> async_take_medication E now refresh_now meds mid t
           = \<lparr>returned = False, medications = meds, fired = []\<rparr>
       \<and> async_skip_medication E now refresh_now meds mid t
           = \<lparr>returned = False, medications = meds, fired = []\<rparr>
       \<and> async_refill_medication E now refresh_now meds mid amount t
           = \<lparr>returned = False, medications = meds, fired = []\<rparr>
       \<and> async_update_supply E now refresh_now meds mid v
           = \<lparr>returned = False, medications = meds, fired = []\<rparr>"
  using assms
  by (simp add: async_remove_medication_def async_update_medication_def
      async_take_medication_def async_skip_medication_def async_refill_medication_def
      async_update_supply_def)

theorem unknown_id_is_rejected_witness:
  "map_of example_registry ''med-x'' = None
   \<and> async_remove_medication example_engine (local_time 3 10) example_registry ''med-x''
       = \<lparr>returned = False, medications = example_registry, fired = []\<rparr>
   \<and> async_update_medication example_engine (local_time 3 9) (local_time 3 10) example_registry
        ''med-x'' example_data
       = \<lparr>returned = False, medications = example_registry, fired = []\<rparr>
   \<and> async_take_medication example_engine (local_time 3 9) (local_time 3 10) example_registry
        ''med-x'' None
       = \<lparr>returned = False, medications = example_registry, fired = []\<rparr>
   \<and> async_skip_medication example_engine (local_time 3 9) (local_time 3 10) example_registry
        ''med-x'' None
       = \<lparr>returned = False, medications = example_registry, fired = []\<rparr>
   \<and> async_refill_medication example_engine (local_time 3 9) (local_time 3 10) example_registry
        ''med-x'' 30 None
       = \<lparr>returned = False, medications = example_registry, fired = []\<rparr>
   \<and> async_update_supply example_engine (local_time 3 9) (local_time 3 10) example_registry
        ''med-x'' 5
       = \<lparr>returned = False, medications = example_registry, fired = []\<rparr>"
proof -
  have h: "map_of example_registry ''med-x'' = None"
    by (simp add: example_registry_def)
  show ?thesis
    using h
      unknown_id_is_rejected
        [OF h, of example_engine "local_time 3 10" "local_time 3 9" example_data None 30 5]
    by simp
qed

subsection \<open>Adding a medication\<close>




subsection \<open>Updating a medication\<close>

text \<open>
  Claim C7. For an id of the registry, \<open>async_update_medication\<close> returns true. It
  replaces the data wholesale, calls \<open>reset_schedule\<close> and then \<open>update_status\<close>, and
  the entry it leaves under the id is that entry after the closing sweep: its data is
  the given data, its ledger and id are the old ones. The cached next-due value is
  discarded: the first \<open>update_status\<close> derives next-due and status from the new data
  with no cached value, and the whole result is the same whatever value was cached
  before. The other entries are the old ones after the sweep, and the keys and their
  order stay as they were.
\<close>

theorem update_replaces_data_and_resets_schedule:
  assumes "map_of meds mid = Some m"
  shows "returned (async_update_medication E now refresh_now meds mid d) = True
       \<and> map_of (medications (async_update_medication E now refresh_now meds mid d)) mid
           = Some (update_status E refresh_now
                     (update_status E now (reset_schedule (m\<lparr>data := d\<rparr>))))
       \<and> map_option data
           (map_of (medications (async_update_medication E now refresh_now meds mid d)) mid)
           = Some d
       \<and> map_option dose_history
           (map_of (medications (async_update_medication E now refresh_now meds mid d)) mid)
           = Some (dose_history m)
       \<and> map_option entry_id
           (map_of (medications (async_update_medication E now refresh_now meds mid d)) mid)
           = Some (entry_id m)
       \<and> (next_due (update_status E now (reset_schedule (m\<lparr>data := d\<rparr>))),
          status (update_status E now (reset_schedule (m\<lparr>data := d\<rparr>))))
           = derive_schedule E None d (dose_history m) now
       \<and> async_update_medication E now refresh_now
            (AList.update mid (m\<lparr>next_due := cached\<rparr>) meds) mid d
           = async_update_medication E now refresh_now meds mid d
       \<and> (\<forall>k. k \<noteq> mid \<longrightarrow>
            map_of (medications (async_update_medication E now refresh_now meds mid d)) k
              = map_option (update_status E refresh_now) (map_of meds k))
       \<and> map fst (medications (async_update_medication E now refresh_now meds mid d))
           = map fst meds"
proof -
  have stored: "medications (async_update_medication E now refresh_now meds mid d)
      = async_update_data E refresh_now
          (AList.update mid (update_status E now (reset_schedule (m\<lparr>data := d\<rparr>))) meds)"
    and ret: "returned (async_update_medication E now refresh_now meds mid d) = True"
    using assms by (simp_all add: async_update_medication_def Let_def)
  have derived: "(next_due (update_status E now (reset_schedule (m\<lparr>data := d\<rparr>))),
          status (update_status E now (reset_schedule (m\<lparr>data := d\<rparr>))))
           = derive_schedule E None d (dose_history m) now"
    by (simp add: update_status_derived reset_schedule_def)
  have same: "reset_schedule (m\<lparr>next_due := cached, data := d\<rparr>) = reset_schedule (m\<lparr>data := d\<rparr>)"
    by (simp add: reset_schedule_def)
  have indep: "async_update_medication E now refresh_now
            (AList.update mid (m\<lparr>next_due := cached\<rparr>) meds) mid d
           = async_update_medication E now refresh_now meds mid d"
    using assms
    by (simp add: async_update_medication_def Let_def update_conv' same)
  show ?thesis
    using assms ret derived indep
    by (simp add: stored map_of_async_update_data keys_async_update_data update_conv'
        keys_update_present reset_schedule_def)
qed

theorem update_replaces_data_and_resets_schedule_witness:
  "map_of [(''med-a'', cached_entry)] ''med-a'' = Some cached_entry
   \<and> next_due cached_entry = Some (local_time 2 8)
   \<and> returned (async_update_medication example_engine (local_time 3 9) (local_time 3 10)
        [(''med-a'', cached_entry)] ''med-a'' renamed_data) = True
   \<and> map_option data
       (map_of (medications
          (async_update_medication example_engine (local_time 3 9) (local_time 3 10)
             [(''med-a'', cached_entry)] ''med-a'' renamed_data))
        ''med-a'')
       = Some renamed_data
   \<and> map_option next_due
       (map_of (medications
          (async_update_medication example_engine (local_time 3 9) (local_time 3 10)
             [(''med-a'', cached_entry)] ''med-a'' renamed_data))
        ''med-a'')
       = Some (Some (local_time 4 0))"
proof -
  have h: "map_of [(''med-a'', cached_entry)] ''med-a'' = Some cached_entry"
    by simp
  have c: "next_due cached_entry = Some (local_time 2 8)"
    by (simp add: cached_entry_def)
  have nd: "next_due (update_status example_engine (local_time 3 10)
              (update_status example_engine (local_time 3 9)
                 (reset_schedule (cached_entry\<lparr>data := renamed_data\<rparr>))))
              = Some (local_time 4 0)"
    by (simp add: update_status_def reset_schedule_def example_engine_def local_time_def
        combine_def start_of_local_day_def date_of_def DAY_US_def timedelta_hours_def)
  show ?thesis
    using h c nd
      update_replaces_data_and_resets_schedule
        [OF h, of example_engine "local_time 3 9" "local_time 3 10" renamed_data None]
    by (simp add: reset_schedule_def)
qed

text \<open>
  Claim C9. The data that the update service builds carries the current
  \<open>last_refill_date\<close>, whatever optional fields the call has, and after the service
  call every medication of the registry has the \<open>last_refill_date\<close> it had before.
\<close>

theorem update_service_keeps_last_refill_date:
  "last_refill_date (updated_data tz cur c) = last_refill_date cur
   \<and> map_option (last_refill_date \<circ> data)
       (map_of (handle_update_medication E now refresh_now meds c) k)
       = map_option (last_refill_date \<circ> data) (map_of meds k)"
proof -
  have "last_refill_date (updated_data tz cur c) = last_refill_date cur" for tz cur
    by (simp add: updated_data_def Let_def)
  then show ?thesis
    by (cases "map_of meds k")
      (auto simp add: handle_update_medication_def get_medication_def
        async_update_medication_def reset_schedule_def Let_def update_conv'
        map_of_async_update_data split: option.splits)
qed

theorem update_service_keeps_last_refill_date_witness:
  "map_option (last_refill_date \<circ> data) (map_of refilled_registry ''med-a'')
     = Some (Some (local_time 5 12))
   \<and> map_option (last_refill_date \<circ> data)
       (map_of (handle_update_medication example_engine (local_time 6 9) (local_time 6 10)
                  refilled_registry example_call) ''med-a'')
       = Some (Some (local_time 5 12))
   \<and> map_option (name \<circ> data)
       (map_of (handle_update_medication example_engine (local_time 6 9) (local_time 6 10)
                  refilled_registry example_call) ''med-a'')
       = Some ''Ibuprofen''
   \<and> map_option (current_supply \<circ> data)
       (map_of (handle_update_medication example_engine (local_time 6 9) (local_time 6 10)
                  refilled_registry example_call) ''med-a'')
       = Some (Some 40)"
proof -
  have before: "map_option (last_refill_date \<circ> data) (map_of refilled_registry ''med-a'')
                  = Some (Some (local_time 5 12))"
    by (simp add: refilled_registry_def new_MedicationEntry_def)
  have changed: "map_option (name \<circ> data)
       (map_of (handle_update_medication example_engine (local_time 6 9) (local_time 6 10)
                  refilled_registry example_call) ''med-a'')
       = Some ''Ibuprofen''"
    "map_option (current_supply \<circ> data)
       (map_of (handle_update_medication example_engine (local_time 6 9) (local_time 6 10)
                  refilled_registry example_call) ''med-a'')
       = Some (Some 40)"
    by (simp_all add: refilled_registry_def new_MedicationEntry_def handle_update_medication_def
        get_medication_def example_call_def async_update_medication_def updated_data_def
        dict_get_def Let_def reset_schedule_def map_of_async_update_data)
  show ?thesis
    using before changed
      update_service_keeps_last_refill_date
        [of 0 example_data example_call example_engine "local_time 6 9" "local_time 6 10"
           refilled_registry "''med-a''"]
    by simp
qed

subsection \<open>Refill and manual supply update\<close>

text \<open>
  Claim C2. For an id of the registry whose medication tracks its supply, a refill with
  a date returns true, adds the amount to the current supply (a supply of \<open>c\<close> becomes
  \<open>c + amount\<close>; an absent supply counts as 0) and sets \<open>last_refill_date\<close> to that
  date, changing no other field of the data; the ledger and the id of the entry, the
  data and ledger of every other entry and the keys stay as they were. When the id is
  unknown or supply tracking is off, it returns false and the registry is the one it
  was given.
\<close>

theorem refill_adds_amount:
  "(map_of meds mid = Some m \<and> supply_tracking_enabled (data m) \<longrightarrow>
      returned (async_refill_medication E now refresh_now meds mid amount (Some d)) = True
    \<and> map_option data
        (map_of (medications (async_refill_medication E now refresh_now meds mid amount (Some d)))
           mid)
        = Some ((data m)
             \<lparr>current_supply :=
                Some ((case current_supply (data m) of None \<Rightarrow> 0 | Some c \<Rightarrow> c) + amount),
              last_refill_date := Some d\<rparr>)
    \<and> map_option dose_history
        (map_of (medications (async_refill_medication E now refresh_now meds mid amount (Some d)))
           mid)
        = Some (dose_history m)
    \<and> map_option entry_id
        (map_of (medications (async_refill_medication E now refresh_now meds mid amount (Some d)))
           mid)
        = Some (entry_id m)
    \<and> (\<forall>k. k \<noteq> mid \<longrightarrow>
          map_option data
            (map_of (medications (async_refill_medication E now refresh_now meds mid amount (Some d)))
               k)
            = map_option data (map_of meds k)
        \<and> map_option dose_history
            (map_of (medications (async_refill_medication E now refresh_now meds mid amount (Some d)))
               k)
            = map_option dose_history (map_of meds k))
    \<and> map fst (medications (async_refill_medication E now refresh_now meds mid amount (Some d)))
        = map fst meds
    \<and> (\<forall>c. current_supply (data m) = Some c \<longrightarrow>
          supply_of (medications (async_refill_medication E now refresh_now meds mid amount (Some d)))
            mid
          = Some (c + amount)))
   \<and> (map_of meds mid = None \<or> (map_of meds mid = Some m \<and> \<not> supply_tracking_enabled (data m)) \<longrightarrow>
        async_refill_medication E now refresh_now meds mid amount rd
          = \<lparr>returned = False, medications = meds, fired = []\<rparr>)"
  by (auto simp add: async_refill_medication_def update_conv' supply_of_def keys_update_present
      map_of_async_update_data keys_async_update_data option.map_comp comp_def)

theorem refill_adds_amount_witness:
  "map_of example_registry ''med-a'' = Some example_entry
   \<and> supply_tracking_enabled (data example_entry)
   \<and> current_supply (data example_entry) = Some 5
   \<and> returned (async_refill_medication example_engine (local_time 3 9) (local_time 3 10)
        example_registry ''med-a'' 30 (Some (local_time 2 12))) = True
   \<and> supply_of (medications (async_refill_medication example_engine (local_time 3 9) (local_time 3 10)
        example_registry ''med-a'' 30 (Some (local_time 2 12)))) ''med-a''
       = Some 35
   \<and> map_option (last_refill_date \<circ> data)
       (map_of (medications (async_refill_medication example_engine (local_time 3 9) (local_time 3 10)
          example_registry ''med-a'' 30 (Some (local_time 2 12)))) ''med-a'')
       = Some (Some (local_time 2 12))
   \<and> map_of example_registry ''med-b'' = Some untracked_entry
   \<and> \<not> supply_tracking_enabled (data untracked_entry)
   \<and> async_refill_medication example_engine (local_time 3 9) (local_time 3 10)
        example_registry ''med-b'' 30 (Some (local_time 2 12))
       = \<lparr>returned = False, medications = example_registry, fired = []\<rparr>"
proof -
  have a: "map_of example_registry ''med-a'' = Some example_entry"
    and b: "map_of example_registry ''med-b'' = Some untracked_entry"
    by (simp_all add: example_registry_def)
  have ta: "supply_tracking_enabled (data example_entry)"
    and ca: "current_supply (data example_entry) = Some 5"
    and tb: "\<not> supply_tracking_enabled (data untracked_entry)"
    by (simp_all add: example_entry_def untracked_entry_def new_MedicationEntry_def example_data_def)
  note ok = refill_adds_amount
      [of example_registry "''med-a''" example_entry example_engine "local_time 3 9"
         "local_time 3 10" 30 "local_time 2 12"]
  note refused = refill_adds_amount
      [of example_registry "''med-b''" untracked_entry example_engine "local_time 3 9"
         "local_time 3 10" 30 "local_time 2 12" "Some (local_time 2 12)"]
  have last: "map_option (last_refill_date \<circ> data)
       (map_of (medications (async_refill_medication example_engine (local_time 3 9) (local_time 3 10)
          example_registry ''med-a'' 30 (Some (local_time 2 12)))) ''med-a'')
       = Some (Some (local_time 2 12))"
    using ok a ta by (auto simp add: option.map_comp [symmetric] simp del: option.map_comp)
  show ?thesis
    using a b ta ca tb ok refused last by simp
qed

text \<open>
  Claim C10. With supply tracking on, a refill of a medication whose supply is absent or
  zero leaves the supply equal to the amount, and a refill without a date sets
  \<open>last_refill_date\<close> to the current time.
\<close>

theorem refill_missing_supply_and_date:
  assumes "map_of meds mid = Some m" and "supply_tracking_enabled (data m)"
  shows "(current_supply (data m) = None \<or> current_supply (data m) = Some 0 \<longrightarrow>
           supply_of (medications (async_refill_medication E now refresh_now meds mid amount rd)) mid
             = Some amount)
       \<and> map_option (last_refill_date \<circ> data)
           (map_of (medications (async_refill_medication E now refresh_now meds mid amount None)) mid)
         = Some (Some now)"
  using assms
  by (auto simp add: async_refill_medication_def update_conv' supply_of_def
      map_of_async_update_data)

theorem refill_missing_supply_and_date_witness:
  "map_option (supply_tracking_enabled \<circ> data) (map_of empty_supply_registry ''med-c'') = Some True
   \<and> supply_of empty_supply_registry ''med-c'' = None
   \<and> supply_of (medications (async_refill_medication example_engine (local_time 3 9) (local_time 3 10)
        empty_supply_registry ''med-c'' 30 None)) ''med-c''
       = Some 30
   \<and> map_option (last_refill_date \<circ> data)
       (map_of (medications (async_refill_medication example_engine (local_time 3 9) (local_time 3 10)
          empty_supply_registry ''med-c'' 30 None)) ''med-c'')
       = Some (Some (local_time 3 9))
   \<and> supply_of empty_supply_registry ''med-d'' = Some 0
   \<and> supply_of (medications (async_refill_medication example_engine (local_time 3 9) (local_time 3 10)
        empty_supply_registry ''med-d'' 30 None)) ''med-d''
       = Some 30"
proof -
  let ?c = "new_MedicationEntry ''med-c'' (example_data\<lparr>current_supply := None\<rparr>)"
  let ?d = "new_MedicationEntry ''med-d'' (example_data\<lparr>current_supply := Some 0\<rparr>)"
  have c: "map_of empty_supply_registry ''med-c'' = Some ?c"
    and d: "map_of empty_supply_registry ''med-d'' = Some ?d"
    by (simp_all add: empty_supply_registry_def)
  have tc: "supply_tracking_enabled (data ?c)" and td: "supply_tracking_enabled (data ?d)"
    and sc: "current_supply (data ?c) = None" and sd: "current_supply (data ?d) = Some 0"
    by (simp_all add: new_MedicationEntry_def example_data_def)
  show ?thesis
    using c d tc td sc sd
      refill_missing_supply_and_date
        [OF c tc, of example_engine "local_time 3 9" "local_time 3 10" 30 None]
      refill_missing_supply_and_date
        [OF d td, of example_engine "local_time 3 9" "local_time 3 10" 30 None]
    by (simp add: supply_of_def)
qed

text \<open>
  Claim C4. \<open>async_update_supply\<close> on a medication that does not track its supply returns
  false and leaves the registry, hence the supply, as it was; on a medication that
  tracks its supply it returns true and the supply is exactly the given value, with no
  other field of the data changed; the ledger and the id of the entry, the data and
  ledger of every other entry and the keys stay as they were.
\<close>

theorem update_supply_overrides_or_fails:
  "(map_of meds mid = Some m \<and> \<not> supply_tracking_enabled (data m) \<longrightarrow>
      returned (async_update_supply E now refresh_now meds mid v) = False
    \<and> medications (async_update_supply E now refresh_now meds mid v) = meds
    \<and> supply_of (medications (async_update_supply E now refresh_now meds mid v)) mid
        = current_supply (data m))
   \<and> (map_of meds mid = Some m \<and> supply_tracking_enabled (data m) \<longrightarrow>
      returned (async_update_supply E now refresh_now meds mid v) = True
    \<and> supply_of (medications (async_update_supply E now refresh_now meds mid v)) mid = Some v
    \<and> map_option data (map_of (medications (async_update_supply E now refresh_now meds mid v)) mid)
        = Some ((data m)\<lparr>current_supply := Some v\<rparr>)
    \<and> map_option dose_history
        (map_of (medications (async_update_supply E now refresh_now meds mid v)) mid)
        = Some (dose_history m)
    \<and> map_option entry_id
        (map_of (medications (async_update_supply E now refresh_now meds mid v)) mid)
        = Some (entry_id m)
    \<and> (\<forall>k. k \<noteq> mid \<longrightarrow>
          map_option data (map_of (medications (async_update_supply E now refresh_now meds mid v)) k)
            = map_option data (map_of meds k)
        \<and> map_option dose_history
            (map_of (medications (async_update_supply E now refresh_now meds mid v)) k)
            = map_option dose_history (map_of meds k))
    \<and> map fst (medications (async_update_supply E now refresh_now meds mid v)) = map fst meds)"
  by (auto simp add: async_update_supply_def update_conv' supply_of_def Let_def
      keys_update_present map_of_async_update_data keys_async_update_data option.map_comp
      comp_def)

theorem update_supply_overrides_or_fails_witness:
  "map_of example_registry ''med-b'' = Some untracked_entry
   \<and> \<not> supply_tracking_enabled (data untracked_entry)
   \<and> returned (async_update_supply example_engine (local_time 3 9) (local_time 3 10)
        example_registry ''med-b'' 12) = False
   \<and> supply_of (medications (async_update_supply example_engine (local_time 3 9) (local_time 3 10)
        example_registry ''med-b'' 12)) ''med-b''
       = Some 5
   \<and> map_of example_registry ''med-a'' = Some example_entry
   \<and> supply_tracking_enabled (data example_entry)
   \<and> returned (async_update_supply example_engine (local_time 3 9) (local_time 3 10)
        example_registry ''med-a'' 12) = True
   \<and> supply_of (medications (async_update_supply example_engine (local_time 3 9) (local_time 3 10)
        example_registry ''med-a'' 12)) ''med-a''
       = Some 12"
proof -
  have a: "map_of example_registry ''med-a'' = Some example_entry"
    and b: "map_of example_registry ''med-b'' = Some untracked_entry"
    by (simp_all add: example_registry_def)
  have ta: "supply_tracking_enabled (data example_entry)"
    and tb: "\<not> supply_tracking_enabled (data untracked_entry)"
    and cb: "current_supply (data untracked_entry) = Some 5"
    by (simp_all add: example_entry_def untracked_entry_def new_MedicationEntry_def example_data_def)
  show ?thesis
    using a b ta tb cb
      update_supply_overrides_or_fails
        [of example_registry "''med-a''" example_entry example_engine "local_time 3 9"
           "local_time 3 10" 12]
      update_supply_overrides_or_fails
        [of example_registry "''med-b''" untracked_entry example_engine "local_time 3 9"
           "local_time 3 10" 12]
    by (simp add: supply_of_def)
qed

subsection \<open>The supply invariant\<close>

text \<open>
  Claim C3. For a tracked medication whose supply is set and not negative, every
  operation leaves the supply set and not negative: a take with its automatic
  decrement, whatever \<open>pills_per_dose\<close> is; the refill service and the update_supply
  service, whatever integer the call carries (the schema refuses a negative one before
  the coordinator is called, and the registry stays as it is); and the coordinator's
  refill and update_supply for every amount or value that passes \<open>positive_int\<close>. The
  decrement alone leaves a supply that is not negative for every number of units per
  dose.
\<close>

theorem supply_stays_nonnegative:
  assumes "map_of meds mid = Some m"
    and "supply_tracking_enabled (data m)"
    and "current_supply (data m) = Some c"
    and "0 \<le> c"
  shows "(\<exists>c'. supply_of (medications (async_take_medication E now refresh_now meds mid t)) mid
                 = Some c' \<and> 0 \<le> c')
       \<and> (rc_medication_id rcall = mid \<longrightarrow>
            (\<exists>c'. supply_of (refill_medication_service E now refresh_now meds rcall) mid = Some c'
                 \<and> 0 \<le> c'))
       \<and> (us_medication_id ucall = mid \<longrightarrow>
            (\<exists>c'. supply_of (update_supply_service E now refresh_now meds ucall) mid = Some c'
                 \<and> 0 \<le> c'))
       \<and> (positive_int amount \<longrightarrow>
            (\<exists>c'. supply_of (medications (async_refill_medication E now refresh_now meds mid amount rd))
                      mid = Some c'
                 \<and> 0 \<le> c'))
       \<and> (positive_int v \<longrightarrow>
            (\<exists>c'. supply_of (medications (async_update_supply E now refresh_now meds mid v)) mid
                      = Some c'
                 \<and> 0 \<le> c'))
       \<and> (\<forall>n. \<exists>c'. current_supply
                       (data (decrement_supply (m\<lparr>data := (data m)\<lparr>pills_per_dose := n\<rparr>\<rparr>)))
                      = Some c' \<and> 0 \<le> c')"
proof -
  have before: "supply_of meds mid = Some c"
    using assms by (simp add: supply_of_def)
  have take: "supply_of (medications (async_take_medication E now refresh_now meds mid t)) mid
                = Some (max 0 (c - pills_per_dose (data m)))"
    using assms
    by (simp add: async_take_medication_def Let_def supply_of_def map_of_async_update_data
        update_conv' decrement_supply_def)
  have refill: "supply_of (medications (async_refill_medication E now refresh_now meds mid a r)) mid
                  = Some (c + a)" for a r
    using assms
    by (simp add: async_refill_medication_def supply_of_def update_conv' map_of_async_update_data)
  have upd: "supply_of (medications (async_update_supply E now refresh_now meds mid a)) mid = Some a"
    for a
    using assms
    by (simp add: async_update_supply_def Let_def supply_of_def update_conv'
        map_of_async_update_data)
  have rservice: "supply_of (refill_medication_service E now refresh_now meds rcall) mid
      = (if positive_int (rc_refill_amount rcall) then Some (c + rc_refill_amount rcall) else Some c)"
    if "rc_medication_id rcall = mid"
    using that assms(1) before refill
    by (simp add: refill_medication_service_def REFILL_MEDICATION_SCHEMA_def
        handle_refill_medication_def get_medication_def Let_def)
  have uservice: "supply_of (update_supply_service E now refresh_now meds ucall) mid
      = (if positive_int (us_current_supply ucall) then Some (us_current_supply ucall) else Some c)"
    if "us_medication_id ucall = mid"
    using that assms(1) before upd
    by (simp add: update_supply_service_def UPDATE_SUPPLY_SCHEMA_def handle_update_supply_def
        get_medication_def)
  have dec: "current_supply (data (decrement_supply (m\<lparr>data := (data m)\<lparr>pills_per_dose := n\<rparr>\<rparr>)))
               = Some (max 0 (c - n))" for n
    using assms by (simp add: decrement_supply_def)
  show ?thesis
    using assms(4) by (simp add: take refill upd rservice uservice dec positive_int_def)
qed

theorem supply_stays_nonnegative_witness:
  "map_of example_registry ''med-a'' = Some example_entry
   \<and> supply_tracking_enabled (data example_entry)
   \<and> current_supply (data example_entry) = Some 5
   \<and> pills_per_dose (data example_entry) = 2
   \<and> supply_of (medications (async_take_medication example_engine (local_time 3 9) (local_time 3 10)
        example_registry ''med-a'' None)) ''med-a'' = Some 3
   \<and> rc_medication_id negative_refill_call = ''med-a''
   \<and> rc_refill_amount negative_refill_call = - 10
   \<and> supply_of (refill_medication_service example_engine (local_time 3 9) (local_time 3 10)
        example_registry negative_refill_call) ''med-a'' = Some 5
   \<and> supply_of (refill_medication_service example_engine (local_time 3 9) (local_time 3 10)
        example_registry good_refill_call) ''med-a'' = Some 35
   \<and> us_current_supply negative_supply_call = - 3
   \<and> supply_of (update_supply_service example_engine (local_time 3 9) (local_time 3 10)
        example_registry negative_supply_call) ''med-a'' = Some 5
   \<and> supply_of (update_supply_service example_engine (local_time 3 9) (local_time 3 10)
        example_registry zero_supply_call) ''med-a'' = Some 0
   \<and> positive_int 30
   \<and> supply_of (medications (async_refill_medication example_engine (local_time 3 9) (local_time 3 10)
        example_registry ''med-a'' 30 None)) ''med-a'' = Some 35
   \<and> current_supply
        (data (decrement_supply (example_entry\<lparr>data := (data example_entry)\<lparr>pills_per_dose := 9\<rparr>\<rparr>)))
        = Some 0"
proof -
  have a: "map_of example_registry ''med-a'' = Some example_entry"
    by (simp add: example_registry_def)
  have t: "supply_tracking_enabled (data example_entry)"
    and c: "current_supply (data example_entry) = Some 5"
    and p: "pills_per_dose (data example_entry) = 2"
    by (simp_all add: example_entry_def new_MedicationEntry_def example_data_def)
  have nn: "(0::int) \<le> 5"
    by simp
  note inv = supply_stays_nonnegative
      [OF a t c nn, of example_engine "local_time 3 9" "local_time 3 10" None
         negative_refill_call negative_supply_call 30 None 0]
  have calls: "rc_medication_id negative_refill_call = ''med-a''"
    "rc_refill_amount negative_refill_call = - 10"
    "us_current_supply negative_supply_call = - 3"
    by (simp_all add: negative_refill_call_def negative_supply_call_def)
  have vals: "supply_of (medications (async_take_medication example_engine (local_time 3 9)
        (local_time 3 10) example_registry ''med-a'' None)) ''med-a'' = Some 3"
    "supply_of (refill_medication_service example_engine (local_time 3 9) (local_time 3 10)
        example_registry negative_refill_call) ''med-a'' = Some 5"
    "supply_of (refill_medication_service example_engine (local_time 3 9) (local_time 3 10)
        example_registry good_refill_call) ''med-a'' = Some 35"
    "supply_of (update_supply_service example_engine (local_time 3 9) (local_time 3 10)
        example_registry negative_supply_call) ''med-a'' = Some 5"
    "supply_of (update_supply_service example_engine (local_time 3 9) (local_time 3 10)
        example_registry zero_supply_call) ''med-a'' = Some 0"
    "supply_of (medications (async_refill_medication example_engine (local_time 3 9)
        (local_time 3 10) example_registry ''med-a'' 30 None)) ''med-a'' = Some 35"
    "current_supply
        (data (decrement_supply (example_entry\<lparr>data := (data example_entry)\<lparr>pills_per_dose := 9\<rparr>\<rparr>)))
        = Some 0"
    using a t c p
    by (simp_all add: async_take_medication_def async_refill_medication_def async_update_supply_def
        refill_medication_service_def update_supply_service_def handle_refill_medication_def
        handle_update_supply_def REFILL_MEDICATION_SCHEMA_def UPDATE_SUPPLY_SCHEMA_def
        get_medication_def positive_int_def negative_refill_call_def good_refill_call_def
        negative_supply_call_def zero_supply_call_def
        Let_def supply_of_def map_of_async_update_data update_conv' decrement_supply_def)
  show ?thesis
    using inv a t c p calls vals by (simp add: positive_int_def)
qed

subsection \<open>The low-supply event\<close>

text \<open>The low-supply predicate reads the data and the ledger only.\<close>

lemma daily_consumption_cong:
  "data m' = data m \<Longrightarrow> dose_history m' = dose_history m \<Longrightarrow>
     daily_consumption E m' = daily_consumption E m"
  by (simp add: daily_consumption_def cong: if_cong option.case_cong)

lemma days_of_supply_remaining_cong:
  "data m' = data m \<Longrightarrow> dose_history m' = dose_history m \<Longrightarrow>
     days_of_supply_remaining E m' = days_of_supply_remaining E m"
  by (simp add: days_of_supply_remaining_def daily_consumption_cong [of m' m]
      cong: option.case_cong)

lemma is_low_supply_cong:
  "data m' = data m \<Longrightarrow> dose_history m' = dose_history m \<Longrightarrow>
     is_low_supply E m' = is_low_supply E m"
  by (simp add: is_low_supply_def days_of_supply_remaining_cong [of m' m]
      cong: option.case_cong)

lemma is_low_supply_update_status [simp]:
  "is_low_supply E (update_status E' now m) = is_low_supply E m"
  by (rule is_low_supply_cong) simp_all

lemma is_low_supply_tracking: "is_low_supply E m \<Longrightarrow> supply_tracking_enabled (data m)"
  by (simp add: is_low_supply_def)

text \<open>
  Claim C1. For a medication of the registry, \<open>async_take_medication\<close> and
  \<open>async_update_supply\<close> fire a low-supply event exactly when \<open>is_low_supply\<close> was false
  before the operation and is true after it. Each fires at most one event, fires none
  while the medication is already low, and a re-evaluation by \<open>update_status\<close> does not
  change the predicate.
\<close>

theorem low_supply_event_edge_triggered:
  assumes "map_of meds mid = Some m"
  shows "(fired (async_take_medication E now refresh_now meds mid t) \<noteq> [] \<longleftrightarrow>
            \<not> is_low_supply E m
          \<and> (\<exists>m'. map_of (medications (async_take_medication E now refresh_now meds mid t)) mid
                      = Some m'
                 \<and> is_low_supply E m'))
       \<and> (fired (async_update_supply E now refresh_now meds mid v) \<noteq> [] \<longleftrightarrow>
            \<not> is_low_supply E m
          \<and> (\<exists>m'. map_of (medications (async_update_supply E now refresh_now meds mid v)) mid
                      = Some m'
                 \<and> is_low_supply E m'))
       \<and> length (fired (async_take_medication E now refresh_now meds mid t)) \<le> 1
       \<and> length (fired (async_update_supply E now refresh_now meds mid v)) \<le> 1
       \<and> (is_low_supply E m \<longrightarrow>
            fired (async_take_medication E now refresh_now meds mid t) = []
          \<and> fired (async_update_supply E now refresh_now meds mid v) = [])
       \<and> is_low_supply E (update_status E now m) = is_low_supply E m"
proof -
  let ?m1 = "record_dose_taken E (case t of None \<Rightarrow> now | Some x \<Rightarrow> x) m"
  let ?m2 = "if supply_tracking_enabled (data ?m1) then decrement_supply ?m1 else ?m1"
  have reg: "map_of (medications (async_take_medication E now refresh_now meds mid t)) mid
               = Some (update_status E refresh_now ?m2)"
    using assms
    by (simp add: async_take_medication_def Let_def map_of_async_update_data update_conv')
  have ev: "fired (async_take_medication E now refresh_now meds mid t)
              = (if supply_tracking_enabled (data ?m1) \<and> \<not> is_low_supply E m \<and> is_low_supply E ?m2
                 then [low_supply_event E (date_of now) ?m2] else [])"
    using assms by (simp add: async_take_medication_def Let_def)
  have off: "\<not> is_low_supply E ?m2" if "\<not> supply_tracking_enabled (data ?m1)"
    using that is_low_supply_tracking [of E ?m2] by auto
  have take: "fired (async_take_medication E now refresh_now meds mid t) \<noteq> [] \<longleftrightarrow>
            \<not> is_low_supply E m
          \<and> (\<exists>m'. map_of (medications (async_take_medication E now refresh_now meds mid t)) mid
                      = Some m'
                 \<and> is_low_supply E m')"
    unfolding reg ev using off by auto
  have upd: "fired (async_update_supply E now refresh_now meds mid v) \<noteq> [] \<longleftrightarrow>
            \<not> is_low_supply E m
          \<and> (\<exists>m'. map_of (medications (async_update_supply E now refresh_now meds mid v)) mid
                      = Some m'
                 \<and> is_low_supply E m')"
    using assms
    by (auto simp add: async_update_supply_def Let_def update_conv' map_of_async_update_data)
  have len: "length (fired (async_take_medication E now refresh_now meds mid t)) \<le> 1"
    "length (fired (async_update_supply E now refresh_now meds mid v)) \<le> 1"
    using assms by (simp_all add: ev async_update_supply_def Let_def)
  have stay: "is_low_supply E m \<longrightarrow>
            fired (async_take_medication E now refresh_now meds mid t) = []
          \<and> fired (async_update_supply E now refresh_now meds mid v) = []"
    using assms by (simp add: ev async_update_supply_def Let_def)
  show ?thesis
    using take upd len stay by simp
qed

lemmas supply_eval =
  full_entry_def untracked_entry_def new_MedicationEntry_def example_data_def
  is_low_supply_def days_of_supply_remaining_def daily_consumption_def FREQUENCY_DAILY_def
  decrement_supply_def record_dose_taken_def update_status_def example_engine_def

theorem low_supply_event_edge_triggered_witness:
  "map_of full_registry ''med-a'' = Some full_entry
   \<and> \<not> is_low_supply example_engine full_entry
   \<and> supply_of (medications (async_take_medication example_engine (local_time 3 9) (local_time 3 10)
        full_registry ''med-a'' None)) ''med-a''
       = Some 28
   \<and> length (fired (async_take_medication example_engine (local_time 3 9) (local_time 3 10)
        full_registry ''med-a'' None)) = 1
   \<and> fired (async_take_medication example_engine (local_time 3 20) (local_time 3 21)
              (medications (async_take_medication example_engine (local_time 3 9) (local_time 3 10)
                 full_registry ''med-a'' None))
              ''med-a'' None) = []
   \<and> fired (async_update_supply example_engine (local_time 3 9) (local_time 3 10)
        full_registry ''med-a'' 4) \<noteq> []
   \<and> fired (async_update_supply example_engine (local_time 3 20) (local_time 3 21)
              (medications (async_update_supply example_engine (local_time 3 9) (local_time 3 10)
                 full_registry ''med-a'' 4))
              ''med-a'' 3) = []"
proof -
  let ?r1 = "medications (async_take_medication example_engine (local_time 3 9) (local_time 3 10)
               full_registry ''med-a'' None)"
  let ?u1 = "medications (async_update_supply example_engine (local_time 3 9) (local_time 3 10)
               full_registry ''med-a'' 4)"
  have a: "map_of full_registry ''med-a'' = Some full_entry"
    by (simp add: full_registry_def)
  have n: "\<not> is_low_supply example_engine full_entry"
    by (simp add: supply_eval)
  obtain m1 where m1: "map_of ?r1 ''med-a'' = Some m1" and l1: "is_low_supply example_engine m1"
    and s1: "current_supply (data m1) = Some 28"
    by (simp add: full_registry_def async_take_medication_def Let_def async_update_data_def supply_eval)
  obtain u1 where u1: "map_of ?u1 ''med-a'' = Some u1" and lu1: "is_low_supply example_engine u1"
    by (simp add: full_registry_def async_update_supply_def Let_def async_update_data_def supply_eval)
  have first: "fired (async_take_medication example_engine (local_time 3 9) (local_time 3 10)
                 full_registry ''med-a'' None) \<noteq> []"
    "length (fired (async_take_medication example_engine (local_time 3 9) (local_time 3 10)
                 full_registry ''med-a'' None)) \<le> 1"
    "fired (async_update_supply example_engine (local_time 3 9) (local_time 3 10)
                 full_registry ''med-a'' 4) \<noteq> []"
    using low_supply_event_edge_triggered
        [OF a, of example_engine "local_time 3 9" "local_time 3 10" None 4] n m1 l1 u1 lu1
    by simp_all
  have second: "fired (async_take_medication example_engine (local_time 3 20) (local_time 3 21)
                  ?r1 ''med-a'' None) = []"
    "fired (async_update_supply example_engine (local_time 3 20) (local_time 3 21)
                  ?u1 ''med-a'' 3) = []"
    using low_supply_event_edge_triggered
        [OF m1, of example_engine "local_time 3 20" "local_time 3 21" None 3] l1
      low_supply_event_edge_triggered
        [OF u1, of example_engine "local_time 3 20" "local_time 3 21" None 3] lu1
    by simp_all
  have len: "length (fired (async_take_medication example_engine (local_time 3 9) (local_time 3 10)
                 full_registry ''med-a'' None)) = 1"
    using first(1,2)
    by (cases "fired (async_take_medication example_engine (local_time 3 9) (local_time 3 10)
                 full_registry ''med-a'' None)") simp_all
  show ?thesis
    using a n m1 s1 len second first(3) by (simp add: supply_of_def)
qed

subsection \<open>The calendar view\<close>

lemmas time_eval =
  local_time_def combine_def add_timedelta_def start_of_local_day_def utc_instant_def
  timedelta_hours_def timedelta_minutes_def date_of_def DAY_US_def

lemmas calendar_eval =
  async_get_events_def medication_events_def dose_event_def refill_event_def
  estimated_refill_date_def days_of_supply_remaining_def daily_consumption_def
  FREQUENCY_DAILY_def untracked_entry_def new_MedicationEntry_def example_data_def
  morning_dose_def far_west_dose_def

text \<open>
  Claim C8, as stated, fails: the range is compared on calendar dates, not on instants.
  For the range from 12:00 to 13:00 of day 10 the view returns the event of a dose
  taken at 08:00 of that day, whose timestamp does not lie in the range.
\<close>

theorem calendar_range_counterexample:
  "async_get_events example_engine 10 (local_time 10 12) (local_time 10 13) dosed_registry
     = [dose_event ''med-b'' morning_dose]
   \<and> \<not> (utc_instant (local_time 10 12) \<le> utc_instant (timestamp morning_dose)
        \<and> utc_instant (timestamp morning_dose) \<le> utc_instant (local_time 10 13))"
  by (simp add: dosed_registry_def calendar_eval time_eval)

lemma mset_medication_events:
  "mset (medication_events E today s e (mid, m))
     = expected_dose_events s e mid m + expected_refill_events E today s e mid m"
  by (simp add: medication_events_def expected_dose_events_def expected_refill_events_def
      split: option.splits)

lemma floor_five_halves: "\<lfloor>5 / 2 :: rat\<rfloor> = 2"
  by (rule floor_unique) simp_all

lemma date_of_refill_event: "date_of (ev_start (refill_event tz mid d)) = d"
  by (simp add: refill_event_def combine_def timedelta_hours_def date_of_def DAY_US_def)

text \<open>
  Claim C8, amended. The calendar view is sorted ascending by start, and it holds, for
  every medication, one event per dose record whose date lies between the date of the
  range start and the date of the range end, plus exactly one refill event when supply
  tracking and \<open>show_refill_on_calendar\<close> are on and the estimated refill date lies
  between these dates; the refill event starts on the estimated refill date. Each date
  is the one that the datetime shows in its own time zone.
\<close>

theorem calendar_events_by_date:
  "sorted (map (\<lambda>x. utc_instant (ev_start x)) (async_get_events E today s e meds))
   \<and> mset (async_get_events E today s e meds)
       = (\<Sum>(mid, m)\<leftarrow>meds. expected_dose_events s e mid m
                              + expected_refill_events E today s e mid m)
   \<and> date_of (ev_start (refill_event tz mid d)) = d"
proof -
  have "mset (concat (map (medication_events E today s e) meds))
          = (\<Sum>(mid, m)\<leftarrow>meds. expected_dose_events s e mid m
                                 + expected_refill_events E today s e mid m)"
    by (induction meds) (auto simp add: mset_medication_events)
  then show ?thesis
    by (simp add: async_get_events_def date_of_refill_event)
qed

theorem calendar_events_by_date_witness:
  "async_get_events example_engine 10 (local_time 10 12) (local_time 12 1) calendar_registry
     = [dose_event ''med-b'' morning_dose,
        dose_event ''med-b'' far_west_dose,
        refill_event (timedelta_hours 1) ''med-a'' 12,
        dose_event ''med-a'' \<lparr>timestamp = local_time 12 23, taken = False, dose_notes = None\<rparr>]
   \<and> date_of (timestamp far_west_dose) = 11
   \<and> utc_instant (timestamp far_west_dose) div DAY_US = 12
   \<and> sorted (map (\<lambda>x. utc_instant (ev_start x))
        (async_get_events example_engine 10 (local_time 10 12) (local_time 12 1) calendar_registry))
   \<and> size (\<Sum>(mid, m)\<leftarrow>calendar_registry.
        expected_dose_events (local_time 10 12) (local_time 12 1) mid m
        + expected_refill_events example_engine 10 (local_time 10 12) (local_time 12 1) mid m) = 4"
proof -
  let ?s = "local_time 10 12"
  let ?e = "local_time 12 1"
  have ev: "async_get_events example_engine 10 ?s ?e calendar_registry
     = [dose_event ''med-b'' morning_dose,
        dose_event ''med-b'' far_west_dose,
        refill_event (timedelta_hours 1) ''med-a'' 12,
        dose_event ''med-a'' \<lparr>timestamp = local_time 12 23, taken = False, dose_notes = None\<rparr>]"
    by (simp add: calendar_registry_def calendar_eval time_eval floor_five_halves)
  have west: "date_of (timestamp far_west_dose) = 11"
    "utc_instant (timestamp far_west_dose) div DAY_US = 12"
    by (simp_all add: far_west_dose_def time_eval)
  note by_date =
    calendar_events_by_date [of example_engine 10 ?s ?e calendar_registry 0 "''med-a''" 12]
  have sz: "size (\<Sum>(mid, m)\<leftarrow>calendar_registry.
        expected_dose_events ?s ?e mid m + expected_refill_events example_engine 10 ?s ?e mid m) = 4"
    unfolding conjunct1 [OF conjunct2 [OF by_date], symmetric] by (simp add: ev)
  have srt: "sorted (map (\<lambda>x. utc_instant (ev_start x))
        (async_get_events example_engine 10 ?s ?e calendar_registry))"
    using by_date by simp
  show ?thesis
    using ev west sz srt by simp
qed


end
